theory Spec2Isabelle
  imports Main "HOL-Library.Word"
begin

section \<open>The runtime of the tiny calculator compiler\<close>

text \<open>
  The repository is one C file, \<^verbatim>\<open>runtime/runtime.c\<close>:
  \<^verbatim>\<open>
  int64_t tiny_input() {
    int64_t x;
    printf("Input: ");
    fflush(stdout);
    scanf("%"PRIi64, &x);
    return x;
  }

  void tiny_print(int64_t x) {
    printf("Output: %"PRIi64"\n", x);
  }
  \<close>
  Both functions are sequences of calls into the C library's formatted input and output.
  The library is not part of the repository; the part of it the two functions reach is
  modelled below after ISO C (7.21.6.1 \<^verbatim>\<open>fprintf\<close>, 7.21.6.2 \<^verbatim>\<open>fscanf\<close>, 7.22.1.4
  \<^verbatim>\<open>strtol\<close>), as executable functions on an explicit state of the two console streams.
  Where the GNU C library departs from the standard's text (a \<^verbatim>\<open>0x\<close> with no hexadecimal
  digit after it), the model does what the library does.
\<close>

subsection \<open>Data\<close>

type_synonym int64_t = "64 word"

text \<open>
  The console, as the process sees it. Bytes written to \<^verbatim>\<open>stdout\<close> wait in the stream's
  buffer (\<open>stdout_pending\<close>) until a flush hands them to the device (\<open>stdout_visible\<close>);
  \<open>stdin_unread\<close> is what is left of the input, end-of-file after its last byte.
  \<open>history\<close> lists the library calls made so far, oldest first. \<open>out_of_range\<close> is the
  library's answer where ISO C gives none: the value a scan stores when the number read does
  not fit the object. Nothing below depends on which value that is.
\<close>

datatype io_event = Call_printf string | Call_fflush | Call_scanf string

record world =
  stdout_pending :: string
  stdout_visible :: string
  stdin_unread :: string
  history :: "io_event list"
  out_of_range :: "int \<Rightarrow> int64_t"

definition stdout_bytes :: "world \<Rightarrow> string" where
  "stdout_bytes w = stdout_visible w @ stdout_pending w"

subsection \<open>Format strings\<close>

text \<open>
  \<^verbatim>\<open>PRIi64\<close> is a macro of \<^verbatim>\<open><inttypes.h>\<close>; where \<^verbatim>\<open>int64_t\<close> is \<^verbatim>\<open>long\<close> it
  expands to \<^verbatim>\<open>"li"\<close> (to \<^verbatim>\<open>"lli"\<close> where it is \<^verbatim>\<open>long long\<close>; the length modifiers are
  read the same way below). Adjacent string literals are concatenated by the compiler.
\<close>

definition PRIi64 :: string where
  "PRIi64 = ''li''"

definition newline :: char where
  "newline = CHR 0x0A"

text \<open>
  A format is a sequence of directives: ordinary characters, and conversion specifications
  introduced by \<^verbatim>\<open>%\<close>. Of the conversion specification the model reads the length modifiers
  and the conversion character; flags, field widths and precisions do not occur in this
  program. The flag of \<open>directives\<close> says whether a \<^verbatim>\<open>%\<close> is open.
\<close>

datatype directive = Ordinary char | Conversion char

definition is_length_modifier :: "char \<Rightarrow> bool" where
  "is_length_modifier c = (c \<in> set ''hljztL'')"

fun directives :: "bool \<Rightarrow> string \<Rightarrow> directive list" where
  "directives _ [] = []"
| "directives False (c # cs) =
     (if c = CHR ''%'' then directives True cs else Ordinary c # directives False cs)"
| "directives True (c # cs) =
     (if is_length_modifier c then directives True cs
      else if c = CHR ''%'' then Ordinary c # directives False cs
      else Conversion c # directives False cs)"

subsection \<open>Formatted output\<close>

text \<open>
  The signed decimal conversions \<^verbatim>\<open>d\<close> and \<^verbatim>\<open>i\<close>: the digits of the magnitude, most
  significant first, found by repeated division by ten, after a minus sign when the value
  is negative.
\<close>

definition digit_char :: "nat \<Rightarrow> char" where
  "digit_char d = ''0123456789'' ! (d mod 10)"

fun decimal_nat :: "nat \<Rightarrow> string" where
  "decimal_nat n =
     (if n < 10 then [digit_char n] else decimal_nat (n div 10) @ [digit_char (n mod 10)])"

declare decimal_nat.simps [simp del]

definition decimal_int :: "int \<Rightarrow> string" where
  "decimal_int i = (if i < 0 then CHR ''-'' # decimal_nat (nat (- i)) else decimal_nat (nat i))"

text \<open>
  Conversions other than \<^verbatim>\<open>d\<close> and \<^verbatim>\<open>i\<close> are outside the model and render nothing.
\<close>

fun render :: "directive list \<Rightarrow> int64_t list \<Rightarrow> string" where
  "render [] args = []"
| "render (Ordinary c # ds) args = c # render ds args"
| "render (Conversion c # ds) [] = render ds []"
| "render (Conversion c # ds) (a # args) =
     (if c = CHR ''d'' \<or> c = CHR ''i'' then decimal_int (sint a) @ render ds args
      else render ds (a # args))"

definition printf :: "string \<Rightarrow> int64_t list \<Rightarrow> world \<Rightarrow> world" where
  "printf fmt args w =
     (let text = render (directives False fmt) args
      in w\<lparr>stdout_pending := stdout_pending w @ text,
           history := history w @ [Call_printf text]\<rparr>)"

definition fflush_stdout :: "world \<Rightarrow> world" where
  "fflush_stdout w =
     w\<lparr>stdout_visible := stdout_visible w @ stdout_pending w,
       stdout_pending := [],
       history := history w @ [Call_fflush]\<rparr>"

subsection \<open>Formatted input\<close>

definition isspace :: "char \<Rightarrow> bool" where
  "isspace c = (c \<in> set [CHR '' '', CHR 0x09, CHR 0x0A, CHR 0x0B, CHR 0x0C, CHR 0x0D])"

text \<open>The value of a digit or letter as \<^verbatim>\<open>strtol\<close> reads it.\<close>

definition digit_value :: "char \<Rightarrow> nat option" where
  "digit_value c =
     (let k = (of_char c :: nat)
      in if 48 \<le> k \<and> k \<le> 57 then Some (k - 48)
         else if 97 \<le> k \<and> k \<le> 122 then Some (k - 87)
         else if 65 \<le> k \<and> k \<le> 90 then Some (k - 55)
         else None)"

definition digit_in :: "nat \<Rightarrow> char \<Rightarrow> bool" where
  "digit_in b c = (case digit_value c of Some d \<Rightarrow> d < b | None \<Rightarrow> False)"

text \<open>
  The digits of an item are accumulated left to right. Only characters that passed
  \<open>digit_in\<close> reach \<open>accumulate\<close>, so the \<open>None\<close> case of \<open>digit_or_zero\<close> is never taken there.
\<close>

definition digit_or_zero :: "char \<Rightarrow> nat" where
  "digit_or_zero c = (case digit_value c of Some d \<Rightarrow> d | None \<Rightarrow> 0)"

definition accumulate :: "nat \<Rightarrow> string \<Rightarrow> nat" where
  "accumulate b ds = foldl (\<lambda>acc c. acc * b + digit_or_zero c) 0 ds"

text \<open>
  One integer conversion of \<^verbatim>\<open>fscanf\<close>, step by step as the GNU C library's
  \<^verbatim>\<open>vfscanf\<close> takes it. White space is skipped; with no character left the conversion is
  an input failure. A sign is taken. A leading \<^verbatim>\<open>0\<close> is put into the buffer; an \<^verbatim>\<open>x\<close> or
  \<^verbatim>\<open>X\<close> right after it is consumed and, for base 0 or 16, makes the base 16; any other
  leading \<^verbatim>\<open>0\<close> makes base 0 octal, and anything else makes it decimal. Then the digits
  of the base are taken into the buffer as far as they go. With no digit in the buffer the
  conversion is a matching failure; otherwise the buffer is converted as \<^verbatim>\<open>strtol\<close>
  does. So a \<^verbatim>\<open>0x\<close> with no hexadecimal digit after it is consumed and read as 0 (where
  the text of ISO C would have it fail to match). The result is paired with the input that
  remains unread.
\<close>

datatype scan_status = Converted int | Matching_failure | Input_failure

definition split_sign :: "string \<Rightarrow> bool \<times> string" where
  "split_sign s =
     (case s of
        [] \<Rightarrow> (False, [])
      | c # cs \<Rightarrow>
          if c = CHR ''-'' then (True, cs)
          else if c = CHR ''+'' then (False, cs)
          else (False, s))"

text \<open>
  \<open>split_prefix\<close> gives the base, the digits already in the buffer (the leading
  \<^verbatim>\<open>0\<close>, if there is one) and the input after the prefix.
\<close>

definition split_prefix :: "nat \<Rightarrow> string \<Rightarrow> nat \<times> string \<times> string" where
  "split_prefix base s =
     (case s of
        [] \<Rightarrow> (if base = 0 then 10 else base, [], s)
      | c # t \<Rightarrow>
          if c = CHR ''0'' then
            (case t of
               [] \<Rightarrow> (if base = 0 then 8 else base, ''0'', t)
             | x # r \<Rightarrow>
                 if x = CHR ''x'' \<or> x = CHR ''X''
                 then (if base = 0 \<or> base = 16 then (16, ''0'', r) else (base, ''0'', t))
                 else (if base = 0 then 8 else base, ''0'', t))
          else (if base = 0 then 10 else base, [], s))"

definition scan_integer :: "nat \<Rightarrow> string \<Rightarrow> scan_status \<times> string" where
  "scan_integer base inp =
     (let s0 = dropWhile isspace inp
      in if s0 = [] then (Input_failure, [])
         else
           let (neg, s1) = split_sign s0;
               (b, lead, s2) = split_prefix base s1;
               ds = lead @ takeWhile (digit_in b) s2;
               rest = dropWhile (digit_in b) s2
           in if ds = [] then (Matching_failure, rest)
              else (Converted (if neg then - int (accumulate b ds) else int (accumulate b ds)),
                    rest))"

text \<open>
  Storing a converted value into an \<^verbatim>\<open>int64_t\<close> object. ISO C leaves a value that the
  object cannot represent undefined; the library decides.
\<close>

definition store_int64 :: "(int \<Rightarrow> int64_t) \<Rightarrow> int \<Rightarrow> int64_t" where
  "store_int64 oor v =
     (if - (2 ^ 63) \<le> v \<and> v < 2 ^ 63 then word_of_int v else oor v)"

definition conversion_base :: "char \<Rightarrow> nat option" where
  "conversion_base c =
     (if c = CHR ''d'' then Some 10 else if c = CHR ''i'' then Some 0 else None)"

text \<open>
  Running the directives of a \<^verbatim>\<open>scanf\<close> format against the input. The result is how the
  run ended (\<open>None\<close>: all directives done), the values assigned in order, and the unread
  input. A white-space directive skips white space; any other ordinary character must be
  the next input character; a conversion outside the model fails to match.
\<close>

fun run_scan ::
  "(int \<Rightarrow> int64_t) \<Rightarrow> directive list \<Rightarrow> string \<Rightarrow> scan_status option \<times> int64_t list \<times> string"
where
  "run_scan oor [] inp = (None, [], inp)"
| "run_scan oor (Ordinary c # ds) inp =
     (if isspace c then run_scan oor ds (dropWhile isspace inp)
      else
        (case inp of
           [] \<Rightarrow> (Some Input_failure, [], [])
         | a # rest \<Rightarrow>
             if a = c then run_scan oor ds rest else (Some Matching_failure, [], inp)))"
| "run_scan oor (Conversion c # ds) inp =
     (case conversion_base c of
        None \<Rightarrow> (Some Matching_failure, [], inp)
      | Some b \<Rightarrow>
          (case scan_integer b inp of
             (Converted v, rest) \<Rightarrow>
               (case run_scan oor ds rest of
                  (st, vs, rest') \<Rightarrow> (st, store_int64 oor v # vs, rest'))
           | (st, rest) \<Rightarrow> (Some st, [], rest)))"

text \<open>
  \<^verbatim>\<open>scanf\<close> returns \<^verbatim>\<open>EOF\<close> (\<open>- 1\<close>) when an input failure came before the first
  assignment, else the number of assignments; the assigned values are what it wrote
  through its pointer arguments.
\<close>

definition scanf :: "string \<Rightarrow> world \<Rightarrow> (int \<times> int64_t list) \<times> world" where
  "scanf fmt w =
     (case run_scan (out_of_range w) (directives False fmt) (stdin_unread w) of
        (st, vs, rest) \<Rightarrow>
          ((if st = Some Input_failure \<and> vs = [] then - 1 else int (length vs), vs),
           w\<lparr>stdin_unread := rest,
             history := history w
               @ [Call_scanf (take (length (stdin_unread w) - length rest) (stdin_unread w))]\<rparr>))"

subsection \<open>The two entry points\<close>

text \<open>
  \<^verbatim>\<open>tiny_input\<close> declares \<^verbatim>\<open>x\<close> without an initialiser: its value is indeterminate until
  \<^verbatim>\<open>scanf\<close> writes it. The model takes that unknown content as the argument \<open>x0\<close>. The
  value \<^verbatim>\<open>scanf\<close> returns is discarded, as in the source.
\<close>

definition tiny_input :: "int64_t \<Rightarrow> world \<Rightarrow> int64_t \<times> world" where
  "tiny_input x0 w =
     (let x = x0;
          w1 = printf ''Input: '' [] w;
          w2 = fflush_stdout w1;
          ((n, assigned), w3) = scanf (''%'' @ PRIi64) w2;
          x = (case assigned of [] \<Rightarrow> x | v # _ \<Rightarrow> v)
      in (x, w3))"

definition tiny_print :: "int64_t \<Rightarrow> world \<Rightarrow> world" where
  "tiny_print x w = printf (''Output: %'' @ PRIi64 @ [newline]) [x] w"

subsection \<open>Vocabulary of the properties\<close>

text \<open>
  A library that stores the nearest representable value when a scan goes out of range, and
  a console that has printed nothing and holds the given input.
\<close>

definition saturate :: "int \<Rightarrow> int64_t" where
  "saturate v = (if v < 0 then word_of_int (- (2 ^ 63)) else word_of_int (2 ^ 63 - 1))"

definition console :: "string \<Rightarrow> world" where
  "console inp =
     \<lparr>stdout_pending = [], stdout_visible = [], stdin_unread = inp, history = [],
      out_of_range = saturate\<rparr>"

fun is_scanf :: "io_event \<Rightarrow> bool" where
  "is_scanf (Call_scanf _) = True"
| "is_scanf _ = False"

fun is_printf :: "io_event \<Rightarrow> bool" where
  "is_printf (Call_printf _) = True"
| "is_printf _ = False"

definition scanf_calls :: "io_event list \<Rightarrow> nat" where
  "scanf_calls h = length (filter is_scanf h)"

definition printf_calls :: "io_event list \<Rightarrow> nat" where
  "printf_calls h = length (filter is_printf h)"

text \<open>
  The value of a digit string in positional notation, and the canonical decimal numeral of
  an integer: a minus sign exactly when the integer is negative, then its magnitude in
  decimal digits, at least one, with no leading zero (so zero is the single digit 0), and
  nothing else.
\<close>

fun positional :: "nat \<Rightarrow> string \<Rightarrow> nat" where
  "positional b [] = 0"
| "positional b (c # cs) = digit_or_zero c * b ^ length cs + positional b cs"

definition decimal_digit :: "char \<Rightarrow> bool" where
  "decimal_digit c = (c \<in> set ''0123456789'')"

definition plain_decimal :: "string \<Rightarrow> bool" where
  "plain_decimal ds =
     (ds \<noteq> [] \<and> list_all decimal_digit ds \<and> (hd ds = CHR ''0'' \<longrightarrow> ds = ''0''))"

definition canonical_decimal :: "string \<Rightarrow> int \<Rightarrow> bool" where
  "canonical_decimal s v =
     (if v < 0
      then (case s of
              [] \<Rightarrow> False
            | c # ds \<Rightarrow> c = CHR ''-'' \<and> plain_decimal ds \<and> int (positional 10 ds) = - v)
      else plain_decimal s \<and> int (positional 10 s) = v)"

text \<open>
  Reading a whole string as a decimal numeral: an optional minus sign, then decimal digits
  up to the end of the string.
\<close>

definition parse_decimal :: "string \<Rightarrow> int option" where
  "parse_decimal s =
     (case s of
        [] \<Rightarrow> None
      | c # cs \<Rightarrow>
          if c = CHR ''-''
          then (if cs \<noteq> [] \<and> list_all decimal_digit cs then Some (- int (positional 10 cs))
                else None)
          else (if list_all decimal_digit s then Some (int (positional 10 s)) else None))"

text \<open>
  The bytes added to standard output between two states of the console.
\<close>

definition written :: "world \<Rightarrow> world \<Rightarrow> string" where
  "written w w' = drop (length (stdout_bytes w)) (stdout_bytes w')"

text \<open>
  The read of \<open>tiny_input\<close> fails when its \<^verbatim>\<open>scanf\<close> does not return 1, that is, when it
  assigns nothing.
\<close>

definition read_fails :: "world \<Rightarrow> bool" where
  "read_fails w = (fst (fst (scanf (''%'' @ PRIi64) w)) \<noteq> 1)"









section \<open>Properties\<close>

subsection \<open>The formats of the program\<close>

lemma prompt_text: "render (directives False ''Input: '') [] = ''Input: ''"
  by simp

lemma output_format:
  "render (directives False (''Output: %'' @ PRIi64 @ [newline])) [x] =
     ''Output: '' @ decimal_int (sint x) @ [newline]"
  by (simp add: PRIi64_def is_length_modifier_def newline_def)

lemma scan_format: "directives False (''%'' @ PRIi64) = [Conversion (CHR ''i'')]"
  by (simp add: PRIi64_def is_length_modifier_def)

text \<open>Both entry points, with the library calls unfolded.\<close>

lemma tiny_input_unfold:
  "tiny_input x0 w =
     (case scan_integer 0 (stdin_unread w) of
        (st, rest) \<Rightarrow>
          ((case st of Converted v \<Rightarrow> store_int64 (out_of_range w) v | _ \<Rightarrow> x0),
           w\<lparr>stdout_pending := [],
             stdout_visible := stdout_visible w @ stdout_pending w @ ''Input: '',
             stdin_unread := rest,
             history := history w @
               [Call_printf ''Input: '', Call_fflush,
                Call_scanf (take (length (stdin_unread w) - length rest) (stdin_unread w))]\<rparr>))"
  unfolding tiny_input_def Let_def scanf_def scan_format printf_def prompt_text fflush_stdout_def
  by (simp add: conversion_base_def split: prod.splits scan_status.splits)

lemma scanf_unfold:
  "fst (scanf (''%'' @ PRIi64) w) =
     (case fst (scan_integer 0 (stdin_unread w)) of
        Converted v \<Rightarrow> (1, [store_int64 (out_of_range w) v])
      | Matching_failure \<Rightarrow> (0, [])
      | Input_failure \<Rightarrow> (- 1, []))"
  unfolding scanf_def scan_format
  by (simp add: conversion_base_def split: prod.splits scan_status.splits)

lemma tiny_print_unfold:
  "tiny_print x w =
     w\<lparr>stdout_pending := stdout_pending w @ ''Output: '' @ decimal_int (sint x) @ [newline],
       history := history w @ [Call_printf (''Output: '' @ decimal_int (sint x) @ [newline])]\<rparr>"
  unfolding tiny_print_def printf_def output_format Let_def by simp

lemmas scan_eval =
  scan_integer_def isspace_def split_sign_def split_prefix_def digit_in_def digit_value_def
  accumulate_def digit_or_zero_def

subsection \<open>Decimal numerals\<close>

lemma digit_cases:
  assumes "d < (10::nat)"
  obtains "d = 0" | "d = 1" | "d = 2" | "d = 3" | "d = 4" | "d = 5" | "d = 6" | "d = 7"
    | "d = 8" | "d = 9"
  using assms by atomize_elim presburger

lemma digit_value_digit_char: "d < 10 \<Longrightarrow> digit_value (digit_char d) = Some d"
  by (erule digit_cases) (simp_all add: digit_char_def digit_value_def)

lemma decimal_digit_digit_char: "decimal_digit (digit_char d)"
proof -
  have "d mod 10 < 10" by simp
  then show ?thesis
    by (rule digit_cases) (simp_all add: digit_char_def decimal_digit_def)
qed

lemma digit_char_zero: "d < 10 \<Longrightarrow> digit_char d = CHR ''0'' \<longleftrightarrow> d = 0"
  by (erule digit_cases) (simp_all add: digit_char_def)

lemma decimal_nat_nonempty: "decimal_nat n \<noteq> []"
  by (subst decimal_nat.simps) simp

lemma decimal_nat_digits: "list_all decimal_digit (decimal_nat n)"
proof (induction n rule: decimal_nat.induct)
  case (1 n)
  then show ?case
    by (subst decimal_nat.simps) (simp add: decimal_digit_digit_char)
qed

lemma hd_decimal_nat: "hd (decimal_nat n) = CHR ''0'' \<longleftrightarrow> n = 0"
proof (induction n rule: decimal_nat.induct)
  case (1 n)
  show ?case
  proof (cases "n < 10")
    case True
    then show ?thesis
      by (subst decimal_nat.simps) (simp add: digit_char_zero)
  next
    case False
    then have "n div 10 \<noteq> 0" by simp
    with False 1 show ?thesis
      by (subst decimal_nat.simps) (simp add: decimal_nat_nonempty)
  qed
qed

lemma positional_append:
  "positional b (xs @ ys) = positional b xs * b ^ length ys + positional b ys"
  by (induction xs) (simp_all add: algebra_simps power_add)

lemma positional_decimal_nat: "positional 10 (decimal_nat n) = n"
proof (induction n rule: decimal_nat.induct)
  case (1 n)
  show ?case
  proof (cases "n < 10")
    case True
    then show ?thesis
      by (subst decimal_nat.simps) (simp add: digit_or_zero_def digit_value_digit_char)
  next
    case False
    with 1 show ?thesis
      by (subst decimal_nat.simps)
         (simp add: positional_append digit_or_zero_def digit_value_digit_char)
  qed
qed

lemma decimal_nat_zero: "decimal_nat 0 = ''0''"
  by (subst decimal_nat.simps) (simp add: digit_char_def)

lemma plain_decimal_nat: "plain_decimal (decimal_nat n)"
  unfolding plain_decimal_def
  by (simp add: decimal_nat_nonempty decimal_nat_digits hd_decimal_nat decimal_nat_zero)

lemma decimal_digit_props:
  assumes "decimal_digit c"
  shows "\<not> isspace c" "digit_in 10 c" "c \<noteq> CHR ''-''" "c \<noteq> CHR ''+''"
  using assms
  by (auto simp: decimal_digit_def isspace_def digit_in_def digit_value_def)

lemma digit_or_zero_less: "decimal_digit c \<Longrightarrow> digit_or_zero c < 10"
  by (auto simp: decimal_digit_def digit_or_zero_def digit_value_def)

lemma digit_char_digit_or_zero: "decimal_digit c \<Longrightarrow> digit_char (digit_or_zero c) = c"
  by (auto simp: decimal_digit_def digit_or_zero_def digit_value_def digit_char_def)

lemma decimal_nat_positional: "plain_decimal s \<Longrightarrow> decimal_nat (positional 10 s) = s"
proof (induction s rule: rev_induct)
  case Nil
  then show ?case by (simp add: plain_decimal_def)
next
  case (snoc c xs)
  from snoc.prems have c: "decimal_digit c" and all: "list_all decimal_digit xs"
    by (simp_all add: plain_decimal_def)
  show ?case
  proof (cases "xs = []")
    case True
    with c show ?thesis
      by (subst decimal_nat.simps)
         (simp add: digit_or_zero_less digit_char_digit_or_zero)
  next
    case False
    with snoc.prems have nz: "hd xs \<noteq> CHR ''0''"
      by (cases xs) (auto simp: plain_decimal_def)
    with False all have px: "plain_decimal xs"
      by (simp add: plain_decimal_def)
    then have ih: "decimal_nat (positional 10 xs) = xs"
      by (rule snoc.IH)
    have "positional 10 xs \<noteq> 0"
    proof
      assume "positional 10 xs = 0"
      with ih have "xs = ''0''" by (simp add: decimal_nat_zero)
      with nz show False by simp
    qed
    then have big: "\<not> positional 10 xs * 10 + digit_or_zero c < 10"
      by simp
    have d: "digit_or_zero c < 10"
      using c by (rule digit_or_zero_less)
    show ?thesis
      using big d ih c
      by (subst decimal_nat.simps)
         (simp add: positional_append digit_char_digit_or_zero)
  qed
qed

lemma canonical_decimal_iff: "canonical_decimal s v \<longleftrightarrow> s = decimal_int v"
proof (cases "v < 0")
  case True
  show ?thesis
  proof
    assume "canonical_decimal s v"
    with True obtain ds where s: "s = CHR ''-'' # ds" and p: "plain_decimal ds"
      and v: "int (positional 10 ds) = - v"
      by (auto simp: canonical_decimal_def split: list.splits)
    from v have "positional 10 ds = nat (- v)" by simp
    with p have "decimal_nat (nat (- v)) = ds"
      using decimal_nat_positional by metis
    with s True show "s = decimal_int v"
      by (simp add: decimal_int_def)
  next
    assume "s = decimal_int v"
    with True show "canonical_decimal s v"
      by (simp add: canonical_decimal_def decimal_int_def plain_decimal_nat
          positional_decimal_nat)
  qed
next
  case False
  show ?thesis
  proof
    assume "canonical_decimal s v"
    with False have p: "plain_decimal s" and v: "int (positional 10 s) = v"
      by (simp_all add: canonical_decimal_def)
    from v have "positional 10 s = nat v" by simp
    with p have "decimal_nat (nat v) = s"
      using decimal_nat_positional by metis
    with False show "s = decimal_int v"
      by (simp add: decimal_int_def)
  next
    assume "s = decimal_int v"
    with False show "canonical_decimal s v"
      by (simp add: canonical_decimal_def decimal_int_def plain_decimal_nat
          positional_decimal_nat)
  qed
qed

lemma accumulate_positional: "accumulate b ds = positional b ds"
proof -
  have "foldl (\<lambda>acc c. acc * b + digit_or_zero c) a ds = a * b ^ length ds + positional b ds"
    for a
    by (induction ds arbitrary: a) (simp_all add: algebra_simps)
  then show ?thesis by (simp add: accumulate_def)
qed

lemma takeWhile_all: "list_all P xs \<Longrightarrow> takeWhile P xs = xs \<and> dropWhile P xs = []"
  by (induction xs) simp_all

lemma split_prefix_10:
  "split_prefix 10 s =
     (case s of
        [] \<Rightarrow> (10, [], [])
      | c # t \<Rightarrow> if c = CHR ''0'' then (10, ''0'', t) else (10, [], s))"
  by (simp add: split_prefix_def split: list.splits)

lemma scan_decimal_nat:
  "scan_integer 10 (decimal_nat n) = (Converted (int n), [])"
proof -
  obtain c cs where s: "decimal_nat n = c # cs"
    using decimal_nat_nonempty by (cases "decimal_nat n") auto
  have all: "list_all decimal_digit (c # cs)"
    using decimal_nat_digits [of n] s by simp
  then have c: "decimal_digit c" by simp
  from all have "list_all (digit_in 10) (c # cs)"
    by (simp add: list_all_iff decimal_digit_props)
  then have "list_all (digit_in 10) cs" by simp
  then have tw: "takeWhile (digit_in 10) cs = cs" "dropWhile (digit_in 10) cs = []"
    using takeWhile_all by blast+
  have "scan_integer 10 (c # cs) = (Converted (int (positional 10 (c # cs))), [])"
    unfolding scan_integer_def Let_def split_sign_def split_prefix_10
    using decimal_digit_props [OF c]
    by (simp add: accumulate_positional tw)
  then have "scan_integer 10 (decimal_nat n) =
      (Converted (int (positional 10 (decimal_nat n))), [])"
    by (simp only: s)
  then show ?thesis
    by (simp only: positional_decimal_nat)
qed

lemma scan_decimal_int: "scan_integer 10 (decimal_int v) = (Converted v, [])"
proof (cases "v < 0")
  case False
  then show ?thesis
    using scan_decimal_nat [of "nat v"] by (simp add: decimal_int_def)
next
  case True
  obtain c cs where s: "decimal_nat (nat (- v)) = c # cs"
    using decimal_nat_nonempty by (cases "decimal_nat (nat (- v))") auto
  have all: "list_all decimal_digit (c # cs)"
    using decimal_nat_digits [of "nat (- v)"] s by simp
  then have c: "decimal_digit c" by simp
  from all have "list_all (digit_in 10) (c # cs)"
    by (simp add: list_all_iff decimal_digit_props)
  then have "list_all (digit_in 10) cs" by simp
  then have tw: "takeWhile (digit_in 10) cs = cs" "dropWhile (digit_in 10) cs = []"
    using takeWhile_all by blast+
  have "scan_integer 10 (CHR ''-'' # c # cs) = (Converted (- int (positional 10 (c # cs))), [])"
    unfolding scan_integer_def Let_def split_sign_def split_prefix_10
    using decimal_digit_props [OF c]
    by (simp add: accumulate_positional isspace_def tw)
  then have "scan_integer 10 (CHR ''-'' # decimal_nat (nat (- v))) =
      (Converted (- int (positional 10 (decimal_nat (nat (- v))))), [])"
    by (simp only: s)
  then have "scan_integer 10 (CHR ''-'' # decimal_nat (nat (- v))) = (Converted v, [])"
    using True by (simp only: positional_decimal_nat) simp
  then show ?thesis
    using True by (simp add: decimal_int_def)
qed

lemma parse_decimal_int: "parse_decimal (decimal_int v) = Some v"
proof (cases "v < 0")
  case True
  then show ?thesis
    by (simp add: parse_decimal_def decimal_int_def decimal_nat_nonempty decimal_nat_digits
        positional_decimal_nat)
next
  case False
  obtain c cs where s: "decimal_nat (nat v) = c # cs"
    using decimal_nat_nonempty by (cases "decimal_nat (nat v)") auto
  have all: "list_all decimal_digit (c # cs)"
    using decimal_nat_digits [of "nat v"] s by simp
  then have "c \<noteq> CHR ''-''" using decimal_digit_props(3) by simp
  with all show ?thesis
    using False s positional_decimal_nat [of "nat v"]
    by (simp add: parse_decimal_def decimal_int_def)
qed

lemma store_sint: "store_int64 oor (sint (v :: int64_t)) = v"
proof -
  have "- (2 ^ 63) \<le> sint v" "sint v < 2 ^ 63"
    using sint_ge [of v] sint_lt [of v] by simp_all
  then show ?thesis by (simp add: store_int64_def)
qed

subsection \<open>How the scan proceeds\<close>

lemma scan_integer_skips_space:
  "list_all isspace ws \<Longrightarrow> scan_integer b (ws @ t) = scan_integer b t"
  by (simp add: scan_integer_def list_all_iff dropWhile_append2)

lemma tiny_input_stdout: "stdout_bytes (snd (tiny_input x0 w)) = stdout_bytes w @ ''Input: ''"
  by (simp add: tiny_input_unfold stdout_bytes_def split: prod.splits)

lemma written_tiny_input: "written w (snd (tiny_input x0 w)) = ''Input: ''"
  by (simp add: written_def tiny_input_stdout)

lemma written_tiny_print:
  "written w (tiny_print x w) = ''Output: '' @ decimal_int (sint x) @ ''\<newline>''"
  by (simp add: written_def tiny_print_unfold stdout_bytes_def newline_def)

lemma read_fails_iff:
  "read_fails w \<longleftrightarrow> (\<forall>v. fst (scan_integer 0 (stdin_unread w)) \<noteq> Converted v)"
  unfolding read_fails_def scanf_unfold
  by (simp split: scan_status.splits)

lemma tiny_input_value:
  "fst (tiny_input x0 w) =
     (case fst (scan_integer 0 (stdin_unread w)) of
        Converted v \<Rightarrow> store_int64 (out_of_range w) v
      | _ \<Rightarrow> x0)"
  by (simp add: tiny_input_unfold split: prod.splits scan_status.splits)

lemma tiny_input_rest:
  "stdin_unread (snd (tiny_input x0 w)) = snd (scan_integer 0 (stdin_unread w))"
  by (simp add: tiny_input_unfold split: prod.splits)

















subsection \<open>Reading\<close>

text \<open>
  C2. With \<^verbatim>\<open>"42\n"\<close> on the input, \<open>tiny_input\<close> returns 42, and the prompt
  \<^verbatim>\<open>Input: \<close> has been written and flushed before the scan; with \<^verbatim>\<open>"-7\n"\<close> it
  returns -7. Whatever the local held and whatever the console was before.
\<close>

theorem tiny_input_examples:
  "sint (fst (tiny_input x0 (w\<lparr>stdin_unread := ''42\<newline>''\<rparr>))) = 42 \<and>
   history (snd (tiny_input x0 (w\<lparr>stdin_unread := ''42\<newline>''\<rparr>))) =
     history w @ [Call_printf ''Input: '', Call_fflush, Call_scanf ''42''] \<and>
   stdout_visible (snd (tiny_input x0 (w\<lparr>stdin_unread := ''42\<newline>''\<rparr>))) =
     stdout_visible w @ stdout_pending w @ ''Input: '' \<and>
   sint (fst (tiny_input x0 (w\<lparr>stdin_unread := ''-7\<newline>''\<rparr>))) = - 7"
proof -
  have a: "scan_integer 0 ''42\<newline>'' = (Converted 42, ''\<newline>'')"
    by (simp add: scan_eval)
  have b: "scan_integer 0 ''-7\<newline>'' = (Converted (- 7), ''\<newline>'')"
    by (simp add: scan_eval)
  show ?thesis
    by (simp add: tiny_input_unfold a b store_int64_def)
qed

text \<open>
  C4. Every call of \<open>tiny_input\<close> makes three library calls, in this order: it writes the
  prompt \<^verbatim>\<open>Input: \<close> (no newline), flushes standard output, and only then scans standard
  input. When the scan starts, the prompt is on the device and nothing is left in the
  buffer.
\<close>

theorem tiny_input_prompt_before_read:
  "(\<exists>text. history (snd (tiny_input x0 w)) =
      history w @ [Call_printf ''Input: '', Call_fflush, Call_scanf text]) \<and>
   stdout_visible (fflush_stdout (printf ''Input: '' [] w)) =
     stdout_visible w @ stdout_pending w @ ''Input: '' \<and>
   stdout_pending (fflush_stdout (printf ''Input: '' [] w)) = [] \<and>
   stdout_visible (snd (tiny_input x0 w)) = stdout_visible w @ stdout_pending w @ ''Input: '' \<and>
   stdout_pending (snd (tiny_input x0 w)) = []"
  by (simp add: tiny_input_unfold printf_def fflush_stdout_def Let_def split: prod.splits)

text \<open>
  C7. A call of \<open>tiny_input\<close> scans the input once and prints once: one more
  \<^verbatim>\<open>scanf\<close> and one more \<^verbatim>\<open>printf\<close> in the history, and the bytes added to standard
  output are one copy of the prompt. This holds whether the scan assigns or fails.
\<close>

theorem tiny_input_single_attempt:
  "scanf_calls (history (snd (tiny_input x0 w))) = scanf_calls (history w) + 1 \<and>
   printf_calls (history (snd (tiny_input x0 w))) = printf_calls (history w) + 1 \<and>
   stdout_bytes (snd (tiny_input x0 w)) = stdout_bytes w @ ''Input: ''"
  by (simp add: tiny_input_unfold scanf_calls_def printf_calls_def stdout_bytes_def
      split: prod.splits)

text \<open>
  C9. On an empty input \<^verbatim>\<open>scanf\<close> reports end-of-file and assigns nothing;
  \<open>tiny_input\<close> discards the report and returns normally with the content its local had
  before the scan. Any 64-bit value can come back, and none of them marks the failure.
\<close>

theorem tiny_input_end_of_stream:
  "fst (scanf (''%'' @ PRIi64) (w\<lparr>stdin_unread := []\<rparr>)) = (- 1, []) \<and>
   fst (tiny_input x0 (w\<lparr>stdin_unread := []\<rparr>)) = x0 \<and>
   (\<forall>v. \<exists>x. fst (tiny_input x (w\<lparr>stdin_unread := []\<rparr>)) = v)"
proof -
  have a: "scan_integer 0 [] = (Input_failure, [])"
    by (simp add: scan_integer_def)
  have b: "fst (scanf (''%'' @ PRIi64) (w\<lparr>stdin_unread := []\<rparr>)) = (- 1, [])"
    unfolding scanf_unfold by (simp add: a)
  have c: "fst (tiny_input x (w\<lparr>stdin_unread := []\<rparr>)) = x" for x
    by (simp add: tiny_input_unfold a)
  show ?thesis
    using b c by blast
qed

text \<open>
  C10. White space before the number makes no difference: with any run of spaces, tabs and
  newlines put in front of the input, \<open>tiny_input\<close> returns the same value and leaves the
  same input unread. This holds for every input, whether it holds an integer or not.
\<close>

theorem tiny_input_skips_whitespace:
  assumes "set ws \<subseteq> {CHR '' '', CHR 0x09, CHR 0x0A}"
  shows "fst (tiny_input x0 (w\<lparr>stdin_unread := ws @ t\<rparr>)) =
           fst (tiny_input x0 (w\<lparr>stdin_unread := t\<rparr>)) \<and>
         stdin_unread (snd (tiny_input x0 (w\<lparr>stdin_unread := ws @ t\<rparr>))) =
           stdin_unread (snd (tiny_input x0 (w\<lparr>stdin_unread := t\<rparr>)))"
proof -
  from assms have "list_all isspace ws"
    by (auto simp: list_all_iff isspace_def)
  then have "scan_integer 0 (ws @ t) = scan_integer 0 t"
    by (rule scan_integer_skips_space)
  then show ?thesis
    by (simp add: tiny_input_unfold split: prod.splits scan_status.splits)
qed

theorem tiny_input_skips_whitespace_witness:
  "set [CHR '' '', CHR 0x09, CHR 0x0A] \<subseteq> {CHR '' '', CHR 0x09, CHR 0x0A} \<and>
   fst (tiny_input 7 (console [CHR '' '', CHR 0x09, CHR 0x0A, CHR ''4'', CHR ''2''])) = 42 \<and>
   fst (tiny_input 7 (console ''42'')) = 42"
proof -
  have a: "set [CHR '' '', CHR 0x09, CHR 0x0A] \<subseteq> {CHR '' '', CHR 0x09, CHR 0x0A}"
    by simp
  have b: "scan_integer 0 ''42'' = (Converted 42, [])"
    by (simp add: scan_eval)
  have c: "fst (tiny_input 7 (console ''42'')) = 42"
    by (simp add: tiny_input_unfold console_def b store_int64_def)
  have "fst (tiny_input 7 (console [] \<lparr>stdin_unread := [CHR '' '', CHR 0x09, CHR 0x0A] @ ''42''\<rparr>)) =
        fst (tiny_input 7 (console [] \<lparr>stdin_unread := ''42''\<rparr>))"
    using tiny_input_skips_whitespace [OF a, where ?x0.0 = 7 and w = "console []" and t = "''42''"]
    by (rule conjunct1)
  then have "fst (tiny_input 7 (console [CHR '' '', CHR 0x09, CHR 0x0A, CHR ''4'', CHR ''2''])) =
        fst (tiny_input 7 (console ''42''))"
    by (simp add: console_def)
  with a c show ?thesis by simp
qed




subsection \<open>Writing\<close>

text \<open>
  C5. At the two ends of the signed 64-bit range \<open>tiny_print\<close> adds to standard output the
  label, all nineteen digits (after a minus sign for the least value) and a newline.
\<close>

theorem tiny_print_extremes:
  "sint (9223372036854775807 :: int64_t) = 2 ^ 63 - 1 \<and>
   stdout_bytes (tiny_print 9223372036854775807 w) =
     stdout_bytes w @ ''Output: 9223372036854775807\<newline>'' \<and>
   sint (- 9223372036854775808 :: int64_t) = - (2 ^ 63) \<and>
   stdout_bytes (tiny_print (- 9223372036854775808) w) =
     stdout_bytes w @ ''Output: -9223372036854775808\<newline>''"
  by (simp add: tiny_print_unfold stdout_bytes_def decimal_int_def decimal_nat.simps
      digit_char_def newline_def)

text \<open>
  C1. For every 64-bit \<open>x\<close>, \<open>tiny_print\<close> adds to standard output the eight bytes
  \<^verbatim>\<open>Output: \<close>, the decimal numeral of the signed value of \<open>x\<close> and one newline, in a
  single \<^verbatim>\<open>printf\<close>, and leaves the input alone. The numeral is canonical (a minus
  sign exactly when negative, no leading zero, digits only, of the right value), and it is
  the only canonical one.
\<close>

theorem tiny_print_output:
  "stdout_bytes (tiny_print x w) =
     stdout_bytes w @ ''Output: '' @ decimal_int (sint x) @ ''\<newline>'' \<and>
   canonical_decimal (decimal_int (sint x)) (sint x) \<and>
   (\<forall>s. canonical_decimal s (sint x) \<longrightarrow> s = decimal_int (sint x)) \<and>
   history (tiny_print x w) =
     history w @ [Call_printf (''Output: '' @ decimal_int (sint x) @ ''\<newline>'')] \<and>
   stdin_unread (tiny_print x w) = stdin_unread w"
  by (simp add: tiny_print_unfold stdout_bytes_def canonical_decimal_iff newline_def)

theorem tiny_print_output_witness:
  "stdout_bytes (tiny_print (- 42) (console [])) = ''Output: -42\<newline>'' \<and>
   canonical_decimal ''-42'' (- 42) \<and>
   \<not> canonical_decimal ''-042'' (- 42)"
proof -
  have d: "decimal_int (- 42) = ''-42''"
    by (simp add: decimal_int_def decimal_nat.simps digit_char_def)
  have e: "sint (- 42 :: int64_t) = - 42"
    by simp
  note th = tiny_print_output [of "- 42" "console []"]
  from th have "stdout_bytes (tiny_print (- 42) (console [])) =
      stdout_bytes (console []) @ ''Output: '' @ decimal_int (sint (- 42 :: int64_t)) @ ''\<newline>''"
    by (rule conjunct1)
  then have a: "stdout_bytes (tiny_print (- 42) (console [])) = ''Output: -42\<newline>''"
    by (simp only: e d) (simp add: console_def stdout_bytes_def)
  from th have "canonical_decimal (decimal_int (sint (- 42 :: int64_t))) (sint (- 42 :: int64_t))"
    by (rule conjunct2 [THEN conjunct1])
  then have b: "canonical_decimal ''-42'' (- 42)"
    by (simp only: e d)
  from th have "\<forall>s. canonical_decimal s (sint (- 42 :: int64_t)) \<longrightarrow>
      s = decimal_int (sint (- 42 :: int64_t))"
    by (rule conjunct2 [THEN conjunct2, THEN conjunct1])
  then have "\<forall>s. canonical_decimal s (- 42) \<longrightarrow> s = ''-42''"
    by (simp only: e d)
  then have "canonical_decimal ''-042'' (- 42) \<longrightarrow> ''-042'' = ''-42''"
    by (rule spec)
  then have c: "\<not> canonical_decimal ''-042'' (- 42)"
    by simp
  from a b c show ?thesis by blast
qed

text \<open>
  C6. The numeral that \<open>tiny_print\<close> writes for \<open>v\<close> reads back as the signed value of
  \<open>v\<close>, both as a whole-string decimal numeral and under the library's own base-10
  conversion (which consumes all of it); that value is \<open>v\<close> again as a 64-bit word.
\<close>

theorem tiny_print_round_trip:
  "stdout_bytes (tiny_print v w) =
     stdout_bytes w @ ''Output: '' @ decimal_int (sint v) @ ''\<newline>'' \<and>
   parse_decimal (decimal_int (sint v)) = Some (sint v) \<and>
   scan_integer 10 (decimal_int (sint v)) = (Converted (sint v), []) \<and>
   store_int64 oor (sint v) = v \<and>
   word_of_int (sint v) = v"
  by (simp add: tiny_print_unfold stdout_bytes_def newline_def parse_decimal_int
      scan_decimal_int store_sint)

subsection \<open>No state between calls\<close>

text \<open>
  C8, as the code has it. Neither function reads or writes anything but its argument, its
  local and the two streams. On two consoles with the same unread input (and the same C
  library), \<open>tiny_input\<close> writes the same bytes, leaves the same input unread, fails or
  succeeds alike, and on success returns the same value, whatever its local held. When
  the read fails it returns what its local held, which the input does not determine. The
  bytes \<open>tiny_print\<close> writes depend on its argument only.
\<close>

theorem calls_keep_no_state:
  "(stdin_unread w = stdin_unread w' \<and> out_of_range w = out_of_range w' \<longrightarrow>
      written w (snd (tiny_input x0 w)) = written w' (snd (tiny_input x0' w')) \<and>
      stdin_unread (snd (tiny_input x0 w)) = stdin_unread (snd (tiny_input x0' w')) \<and>
      (read_fails w \<longleftrightarrow> read_fails w') \<and>
      (\<not> read_fails w \<longrightarrow> fst (tiny_input x0 w) = fst (tiny_input x0' w')) \<and>
      (read_fails w \<longrightarrow> fst (tiny_input x0 w) = x0 \<and> fst (tiny_input x0' w') = x0')) \<and>
   written w (tiny_print x w) = written w' (tiny_print x w')"
  by (auto simp: written_tiny_input written_tiny_print tiny_input_rest read_fails_iff
      tiny_input_value split: scan_status.splits)

text \<open>
  Without the restriction to successful reads the property fails: on the same empty input,
  two calls whose locals held 0 and 1 return 0 and 1.
\<close>

theorem calls_depend_on_local_counterexample:
  "stdin_unread (console []) = stdin_unread (console []) \<and>
   fst (tiny_input 0 (console [])) \<noteq> fst (tiny_input 1 (console []))"
proof -
  have a: "scan_integer 0 [] = (Input_failure, [])"
    by (simp add: scan_integer_def)
  show ?thesis
    by (simp add: tiny_input_value console_def a)
qed

theorem calls_keep_no_state_witness:
  "\<not> read_fails (console ''42\<newline>'') \<and>
   fst (tiny_input 0 (console ''42\<newline>'')) =
     fst (tiny_input 1 (tiny_print 5 (console ''42\<newline>''))) \<and>
   written (console ''42\<newline>'') (snd (tiny_input 0 (console ''42\<newline>''))) =
     written (tiny_print 5 (console ''42\<newline>''))
       (snd (tiny_input 1 (tiny_print 5 (console ''42\<newline>'')))) \<and>
   read_fails (console []) \<and>
   fst (tiny_input 0 (console [])) = 0 \<and>
   fst (tiny_input 1 (tiny_print 5 (console []))) = 1"
proof -
  have s42: "scan_integer 0 ''42\<newline>'' = (Converted 42, ''\<newline>'')"
    by (simp add: scan_eval)
  have s0: "scan_integer 0 [] = (Input_failure, [])"
    by (simp add: scan_integer_def)
  have h1: "stdin_unread (console ''42\<newline>'') = stdin_unread (tiny_print 5 (console ''42\<newline>'')) \<and>
      out_of_range (console ''42\<newline>'') = out_of_range (tiny_print 5 (console ''42\<newline>''))"
    by (simp add: tiny_print_unfold console_def)
  have h2: "stdin_unread (console []) = stdin_unread (tiny_print 5 (console [])) \<and>
      out_of_range (console []) = out_of_range (tiny_print 5 (console []))"
    by (simp add: tiny_print_unfold console_def)
  have n1: "\<not> read_fails (console ''42\<newline>'')"
    by (simp add: read_fails_iff console_def s42)
  have n2: "read_fails (console [])"
    by (simp add: read_fails_iff console_def s0)
  from calls_keep_no_state [of "console ''42\<newline>''" "tiny_print 5 (console ''42\<newline>'')" 0 1 5] h1 n1
  have a: "fst (tiny_input 0 (console ''42\<newline>'')) =
      fst (tiny_input 1 (tiny_print 5 (console ''42\<newline>'')))"
    and b: "written (console ''42\<newline>'') (snd (tiny_input 0 (console ''42\<newline>''))) =
      written (tiny_print 5 (console ''42\<newline>''))
        (snd (tiny_input 1 (tiny_print 5 (console ''42\<newline>''))))"
    by blast+
  from calls_keep_no_state [of "console []" "tiny_print 5 (console [])" 0 1 5] h2 n2
  have c: "fst (tiny_input 0 (console [])) = 0"
    and d: "fst (tiny_input 1 (tiny_print 5 (console []))) = 1"
    by blast+
  from n1 a b n2 c d show ?thesis by blast
qed

end
